theory Spec2Isabelle
  imports Main "HOL-Library.Char_ord" "HOL-Library.List_Lexorder" "HOL-Library.Log_Nat"
begin

section \<open>The persistent store of session-memory.py\<close>

text \<open>
  The SQLite database of \<^verbatim>\<open>SessionMemory.init_database\<close> is a record of six tables, each
  a list of rows in rowid order (the table notes is the field \<open>notes'\<close>). Timestamps
  (\<^verbatim>\<open>CURRENT_TIMESTAMP\<close>, text of one-second resolution whose text order is the
  chronological order) are seconds as \<open>nat\<close>. A nullable TEXT column is a
  \<open>string option\<close>.
\<close>

record session_row =
  s_id :: nat
  project_path :: string
  started_at :: nat
  last_active :: nat
  s_description :: "string option"
  status :: "string option"

record file_read_row =
  fr_id :: nat
  fr_session_id :: nat
  fr_file_path :: string
  fr_file_hash :: "string option"
  read_at :: nat
  fr_context :: "string option"

record change_row =
  ch_id :: nat
  ch_session_id :: nat
  ch_file_path :: string
  change_type :: string
  ch_description :: "string option"
  before_hash :: "string option"
  after_hash :: "string option"
  changed_at :: nat

record test_row =
  t_id :: nat
  t_session_id :: nat
  t_command :: string
  t_result :: string
  t_output :: "string option"
  run_at :: nat

record note_row =
  n_id :: nat
  n_session_id :: nat
  n_content :: string
  n_tags :: "string option"
  created_at :: nat

record error_row =
  e_id :: nat
  e_session_id :: nat
  error_type :: string
  error_message :: string
  e_file_path :: "string option"
  e_context :: "string option"
  occurred_at :: nat

record db =
  sessions :: "session_row list"
  file_reads :: "file_read_row list"
  changes :: "change_row list"
  tests :: "test_row list"
  notes' :: "note_row list"
  errors :: "error_row list"

text \<open>\<^verbatim>\<open>init_database\<close> on a fresh file: every table exists and is empty.\<close>

definition init_database :: db where
  "init_database =
     \<lparr>sessions = [], file_reads = [], changes = [], tests = [], notes' = [], errors = []\<rparr>"

text \<open>
  What the program asks of the operating system and of the Python library, as one record:
  the working directory, \<^verbatim>\<open>os.path.abspath\<close>, the bytes \<^verbatim>\<open>open(p, 'rb').read()\<close> returns
  (\<open>None\<close> when opening or reading raises), the list \<^verbatim>\<open>open(p, 'r', encoding='utf-8',
  errors='ignore').readlines()\<close> returns (\<open>None\<close> when it raises), \<^verbatim>\<open>Path.is_dir\<close>, and
  \<^verbatim>\<open>hashlib.md5(b).hexdigest()\<close>.
\<close>

record os_env =
  getcwd :: string
  abspath :: "string \<Rightarrow> string"
  read_bytes :: "string \<Rightarrow> string option"
  read_lines :: "string \<Rightarrow> string list option"
  is_dir :: "string \<Rightarrow> bool"
  md5_hexdigest :: "string \<Rightarrow> string"

section \<open>SQL fragments\<close>

text \<open>
  \<^verbatim>\<open>INTEGER PRIMARY KEY AUTOINCREMENT\<close>: the new rowid is one more than the largest rowid the
  table ever held. No statement of the program deletes a row, so that is the largest rowid
  in the table (0 for an empty table).
\<close>

definition next_id :: "nat list \<Rightarrow> nat" where
  "next_id ids = Suc (foldr max ids 0)"

text \<open>
  \<^verbatim>\<open>ORDER BY col DESC\<close>: a stable sort, so rows of equal timestamp stay in rowid order
  (SQL leaves their order open; SQLite's sorter for a query with LIMIT keeps it).
  \<^verbatim>\<open>LIMIT n\<close>: a negative \<open>n\<close> is no limit. \<^verbatim>\<open>fetchone()\<close>: the first row or \<open>None\<close>.
\<close>

definition order_by_desc :: "('a \<Rightarrow> nat) \<Rightarrow> 'a list \<Rightarrow> 'a list" where
  "order_by_desc col rows = sort_key (\<lambda>r. - int (col r)) rows"

definition sql_limit :: "int \<Rightarrow> 'a list \<Rightarrow> 'a list" where
  "sql_limit n rows = (if n < 0 then rows else take (nat n) rows)"

definition fetchone :: "'a list \<Rightarrow> 'a option" where
  "fetchone rows = (case rows of [] \<Rightarrow> None | r # _ \<Rightarrow> Some r)"

section \<open>Session resolution\<close>

text \<open>\<^verbatim>\<open>os.path.basename\<close>: what follows the last slash.\<close>

definition basename :: "string \<Rightarrow> string" where
  "basename p = rev (takeWhile (\<lambda>c. c \<noteq> CHR ''/'') (rev p))"

text \<open>
  The SELECT of \<^verbatim>\<open>get_current_session\<close>:
  \<^verbatim>\<open>WHERE project_path = ? AND status = 'active' ORDER BY last_active DESC LIMIT 1\<close>.
\<close>

definition active_sessions :: "session_row list \<Rightarrow> string \<Rightarrow> session_row list" where
  "active_sessions rows p =
     filter (\<lambda>r. project_path r = p \<and> status r = Some ''active'') rows"

definition select_active_session :: "session_row list \<Rightarrow> string \<Rightarrow> session_row option" where
  "select_active_session rows p =
     fetchone (sql_limit 1 (order_by_desc last_active (active_sessions rows p)))"

text \<open>
  \<^verbatim>\<open>get_current_session\<close>, at clock reading \<open>now\<close>: the session id and the store after the
  commit. The UPDATE touches every row whose id is the one found; the INSERT leaves
  \<^verbatim>\<open>started_at\<close>, \<^verbatim>\<open>last_active\<close> and \<^verbatim>\<open>status\<close> to their column defaults.
\<close>

definition get_current_session :: "os_env \<Rightarrow> nat \<Rightarrow> db \<Rightarrow> nat \<times> db" where
  "get_current_session env now d =
     (let project_path' = getcwd env in
      case select_active_session (sessions d) project_path' of
        Some r \<Rightarrow>
          (s_id r,
           d\<lparr>sessions :=
               map (\<lambda>r'. if s_id r' = s_id r then r'\<lparr>last_active := now\<rparr> else r')
                 (sessions d)\<rparr>)
      | None \<Rightarrow>
          (let session_id = next_id (map s_id (sessions d)) in
           (session_id,
            d\<lparr>sessions := sessions d @
               [\<lparr>s_id = session_id, project_path = project_path',
                 started_at = now, last_active = now,
                 s_description = Some (''Session for '' @ basename project_path'),
                 status = Some ''active''\<rparr>]\<rparr>)))"

section \<open>Content hashing\<close>

text \<open>
  \<^verbatim>\<open>file_hash\<close>: the bare \<^verbatim>\<open>except\<close> turns every failure of \<^verbatim>\<open>open\<close> or \<^verbatim>\<open>read\<close> into
  \<^verbatim>\<open>None\<close>.
\<close>

definition file_hash :: "os_env \<Rightarrow> string \<Rightarrow> string option" where
  "file_hash env file_path =
     (case read_bytes env file_path of
        None \<Rightarrow> None
      | Some bytes \<Rightarrow> Some (md5_hexdigest env bytes))"

section \<open>Context inference\<close>

text \<open>
  Strings are lists of 8-bit characters, read as ASCII text: \<^verbatim>\<open>str.lower\<close> maps A..Z to
  a..z and leaves every other character alone, \<^verbatim>\<open>\s\<close> is the ASCII white space of Python's
  \<^verbatim>\<open>str.isspace\<close> and \<^verbatim>\<open>\w\<close> is a letter, a digit or the underscore.
\<close>

definition lower_char :: "char \<Rightarrow> char" where
  "lower_char c =
     (if 65 \<le> (of_char c :: nat) \<and> (of_char c :: nat) \<le> 90
      then char_of ((of_char c :: nat) + 32) else c)"

definition lower :: "string \<Rightarrow> string" where
  "lower s = map lower_char s"

fun starts_with :: "string \<Rightarrow> string \<Rightarrow> bool" where
  "starts_with [] s = True"
| "starts_with (p # ps) [] = False"
| "starts_with (p # ps) (c # cs) = (p = c \<and> starts_with ps cs)"

text \<open>Python's \<^verbatim>\<open>pat in s\<close> on strings.\<close>

fun contains :: "string \<Rightarrow> string \<Rightarrow> bool" where
  "contains pat [] = (pat = [])"
| "contains pat (c # cs) = (starts_with pat (c # cs) \<or> contains pat cs)"

definition is_space :: "char \<Rightarrow> bool" where
  "is_space c = (let n = (of_char c :: nat) in (9 \<le> n \<and> n \<le> 13) \<or> (28 \<le> n \<and> n \<le> 32))"

definition is_word :: "char \<Rightarrow> bool" where
  "is_word c =
     (let n = (of_char c :: nat)
      in (48 \<le> n \<and> n \<le> 57) \<or> (65 \<le> n \<and> n \<le> 90) \<or> n = 95 \<or> (97 \<le> n \<and> n \<le> 122))"

text \<open>
  \<^verbatim>\<open>re.search(kw + r'\s+\w+', s)\<close> for a literal keyword: no character is both white space
  and a word character, so a match at a position is the keyword, a non-empty run of white
  space that is as long as it can be, and a word character right after it.
\<close>

definition match_keyword :: "string \<Rightarrow> string \<Rightarrow> bool" where
  "match_keyword kw s =
     (starts_with kw s \<and>
      (let rest = drop (length kw) s
       in takeWhile is_space rest \<noteq> [] \<and>
          (case dropWhile is_space rest of [] \<Rightarrow> False | c # _ \<Rightarrow> is_word c)))"

fun search_keyword :: "string \<Rightarrow> string \<Rightarrow> bool" where
  "search_keyword kw [] = match_keyword kw []"
| "search_keyword kw (c # cs) = (match_keyword kw (c # cs) \<or> search_keyword kw cs)"

text \<open>
  \<^verbatim>\<open>pathlib.Path(p).name\<close> and \<^verbatim>\<open>.suffix\<close> on a POSIX path: the parts are the pieces between
  slashes without the empty ones and the single dots; the name is the last part (empty when
  there is none); the suffix starts at the last dot of the name when that dot is neither
  the first nor the last character.
\<close>

fun split_slash :: "string \<Rightarrow> string list" where
  "split_slash [] = [[]]"
| "split_slash (c # cs) =
     (if c = CHR ''/'' then [] # split_slash cs
      else (case split_slash cs of [] \<Rightarrow> [[c]] | w # ws \<Rightarrow> (c # w) # ws))"

definition path_parts :: "string \<Rightarrow> string list" where
  "path_parts p = filter (\<lambda>part. part \<noteq> [] \<and> part \<noteq> ''.'') (split_slash p)"

definition path_name :: "string \<Rightarrow> string" where
  "path_name p = (case rev (path_parts p) of [] \<Rightarrow> [] | n # _ \<Rightarrow> n)"

definition path_suffix :: "string \<Rightarrow> string" where
  "path_suffix p =
     (let name = path_name p;
          ext = rev (takeWhile (\<lambda>c. c \<noteq> CHR ''.'') (rev name))
      in if CHR ''.'' \<in> set name \<and> ext \<noteq> [] \<and> Suc (length ext) < length name
         then CHR ''.'' # ext else [])"

definition contexts :: "(string \<times> string) list" where
  "contexts =
     [(''.py'', ''Examining Python code''),
      (''.js'', ''Examining JavaScript code''),
      (''.ts'', ''Examining TypeScript code''),
      (''.jsx'', ''Examining React component''),
      (''.tsx'', ''Examining React TypeScript component''),
      (''.css'', ''Examining styles''),
      (''.scss'', ''Examining SCSS styles''),
      (''.html'', ''Examining HTML markup''),
      (''.json'', ''Examining configuration/data''),
      (''.md'', ''Examining documentation''),
      (''.yml'', ''Examining YAML configuration''),
      (''.yaml'', ''Examining YAML configuration''),
      (''.toml'', ''Examining TOML configuration''),
      (''.dockerfile'', ''Examining Docker configuration''),
      (''.sql'', ''Examining database schema/queries''),
      (''.sh'', ''Examining shell script''),
      (''.bash'', ''Examining bash script''),
      (''.zsh'', ''Examining zsh script'')]"

text \<open>The dictionary \<^verbatim>\<open>special_files\<close>, in the insertion order its loop visits.\<close>

definition special_files :: "(string \<times> string) list" where
  "special_files =
     [(''package.json'', ''Examining project dependencies and scripts''),
      (''requirements.txt'', ''Examining Python dependencies''),
      (''cargo.toml'', ''Examining Rust project configuration''),
      (''dockerfile'', ''Examining Docker container setup''),
      (''makefile'', ''Examining build configuration''),
      (''readme'', ''Reading project documentation''),
      (''changelog'', ''Examining project history''),
      (''license'', ''Examining project license''),
      (''.gitignore'', ''Examining git ignore patterns''),
      (''.env'', ''Examining environment configuration''),
      (''config'', ''Examining configuration file'')]"

text \<open>
  \<^verbatim>\<open>infer_context\<close> on a string path. The inner \<^verbatim>\<open>try\<close> covers \<^verbatim>\<open>open\<close> and
  \<^verbatim>\<open>readlines\<close>, the only calls in it that can raise; on failure \<^verbatim>\<open>context\<close> keeps the
  plain description. The outer \<^verbatim>\<open>except\<close> (the result \<^verbatim>\<open>Examining file\<close>) needs an
  argument that is not a path string, which no caller passes.
\<close>

definition infer_context :: "os_env \<Rightarrow> string \<Rightarrow> string" where
  "infer_context env file_path =
     (let filename_lower = lower (path_name file_path) in
      case find (\<lambda>(pattern, context). contains pattern filename_lower) special_files of
        Some (pattern, context) \<Rightarrow> context
      | None \<Rightarrow>
         (let suffix = lower (path_suffix file_path) in
          case map_of contexts suffix of
            Some context \<Rightarrow>
              (case read_lines env file_path of
                 None \<Rightarrow> context
               | Some lines \<Rightarrow>
                  (let first_lines = lower (concat (take 10 lines)) in
                   if contains ''test'' filename_lower \<or> contains ''spec'' filename_lower
                   then ''Examining '' @ tl suffix @ '' test file''
                   else if contains ''api'' filename_lower \<or> contains ''endpoint'' filename_lower
                   then ''Examining '' @ tl suffix @ '' API code''
                   else if contains ''component'' filename_lower
                   then ''Examining '' @ tl suffix @ '' component''
                   else if contains ''util'' filename_lower \<or> contains ''helper'' filename_lower
                   then ''Examining '' @ tl suffix @ '' utility functions''
                   else if contains ''config'' filename_lower \<or> contains ''setting'' filename_lower
                   then ''Examining '' @ tl suffix @ '' configuration''
                   else if search_keyword ''class'' first_lines
                   then ''Examining '' @ tl suffix @ '' class definition''
                   else if search_keyword ''function'' first_lines
                           \<or> search_keyword ''def'' first_lines
                   then ''Examining '' @ tl suffix @ '' function definitions''
                   else if contains ''import'' first_lines \<or> contains ''from'' first_lines
                   then ''Examining '' @ tl suffix @ '' module imports and setup''
                   else context))
          | None \<Rightarrow>
              (if is_dir env file_path then ''Examining directory structure''
               else ''Examining '' @ (if suffix \<noteq> [] then tl suffix else ''file''))))"

section \<open>The activity ledger\<close>

text \<open>
  Every logging method resolves the session first (clock reading \<open>t_res\<close>) and then
  inserts one row (clock reading \<open>t_ins\<close>, the column default of the row's timestamp). It
  returns \<^verbatim>\<open>cursor.lastrowid\<close> and the store after the commit.
\<close>

definition log_read ::
  "os_env \<Rightarrow> nat \<Rightarrow> nat \<Rightarrow> db \<Rightarrow> string \<Rightarrow> string option \<Rightarrow> nat \<times> db" where
  "log_read env t_res t_ins d file_path context =
     (let (session_id, d1) = get_current_session env t_res d;
          file_path' = abspath env file_path;
          file_hash' = file_hash env file_path';
          context' = (case context of None \<Rightarrow> infer_context env file_path' | Some c \<Rightarrow> c);
          rowid = next_id (map fr_id (file_reads d1))
      in (rowid,
          d1\<lparr>file_reads := file_reads d1 @
             [\<lparr>fr_id = rowid, fr_session_id = session_id, fr_file_path = file_path',
               fr_file_hash = file_hash', read_at = t_ins, fr_context = Some context'\<rparr>]\<rparr>))"

text \<open>
  The SELECT of \<^verbatim>\<open>log_change\<close>:
  \<^verbatim>\<open>WHERE session_id = ? AND file_path = ? ORDER BY read_at DESC LIMIT 1\<close>.
\<close>

definition reads_of :: "file_read_row list \<Rightarrow> nat \<Rightarrow> string \<Rightarrow> file_read_row list" where
  "reads_of rows session_id file_path =
     filter (\<lambda>r. fr_session_id r = session_id \<and> fr_file_path r = file_path) rows"

definition select_last_read ::
  "file_read_row list \<Rightarrow> nat \<Rightarrow> string \<Rightarrow> file_read_row option" where
  "select_last_read rows session_id file_path =
     fetchone (sql_limit 1 (order_by_desc read_at (reads_of rows session_id file_path)))"

definition log_change ::
  "os_env \<Rightarrow> nat \<Rightarrow> nat \<Rightarrow> db \<Rightarrow> string \<Rightarrow> string \<Rightarrow> string option \<Rightarrow> nat \<times> db" where
  "log_change env t_res t_ins d file_path change_type' description =
     (let (session_id, d1) = get_current_session env t_res d;
          file_path' = abspath env file_path;
          before_hash' =
            (if change_type' \<in> set [''modify'', ''delete'']
             then (case select_last_read (file_reads d1) session_id file_path' of
                     Some r \<Rightarrow> fr_file_hash r
                   | None \<Rightarrow> None)
             else None);
          after_hash' =
            (if change_type' \<in> set [''create'', ''modify'']
             then file_hash env file_path' else None);
          rowid = next_id (map ch_id (changes d1))
      in (rowid,
          d1\<lparr>changes := changes d1 @
             [\<lparr>ch_id = rowid, ch_session_id = session_id, ch_file_path = file_path',
               change_type = change_type', ch_description = description,
               before_hash = before_hash', after_hash = after_hash',
               changed_at = t_ins\<rparr>]\<rparr>))"

definition log_test ::
  "os_env \<Rightarrow> nat \<Rightarrow> nat \<Rightarrow> db \<Rightarrow> string \<Rightarrow> string \<Rightarrow> string option \<Rightarrow> nat \<times> db" where
  "log_test env t_res t_ins d command result output' =
     (let (session_id, d1) = get_current_session env t_res d;
          rowid = next_id (map t_id (tests d1))
      in (rowid,
          d1\<lparr>tests := tests d1 @
             [\<lparr>t_id = rowid, t_session_id = session_id, t_command = command,
               t_result = result, t_output = output', run_at = t_ins\<rparr>]\<rparr>))"

text \<open>
  \<^verbatim>\<open>json.dumps\<close> on a list of strings (\<^verbatim>\<open>ensure_ascii\<close> is on, the separators are the
  defaults). A character is a code point below 256: the quote, the backslash and five
  control characters have short escapes, the printable ASCII characters stand for
  themselves, every other one is \<^verbatim>\<open>\u00xx\<close> in lower-case hexadecimal.
\<close>

definition hex_digit :: "nat \<Rightarrow> char" where
  "hex_digit n = (if n < 10 then char_of (48 + n) else char_of (87 + n))"

definition json_escape_char :: "char \<Rightarrow> string" where
  "json_escape_char c =
     (let n = (of_char c :: nat) in
      if c = CHR 0x22 then [CHR 0x5C, CHR 0x22]
      else if c = CHR 0x5C then [CHR 0x5C, CHR 0x5C]
      else if c = CHR 0x0A then [CHR 0x5C, CHR ''n'']
      else if c = CHR 0x0D then [CHR 0x5C, CHR ''r'']
      else if c = CHR 0x09 then [CHR 0x5C, CHR ''t'']
      else if c = CHR 0x08 then [CHR 0x5C, CHR ''b'']
      else if c = CHR 0x0C then [CHR 0x5C, CHR ''f'']
      else if 32 \<le> n \<and> n \<le> 126 then [c]
      else [CHR 0x5C, CHR ''u'', CHR ''0'', CHR ''0'', hex_digit (n div 16), hex_digit (n mod 16)])"

definition json_string :: "string \<Rightarrow> string" where
  "json_string s = CHR 0x22 # concat (map json_escape_char s) @ [CHR 0x22]"

fun join_comma :: "string list \<Rightarrow> string" where
  "join_comma [] = []"
| "join_comma [x] = x"
| "join_comma (x # y # ys) = x @ '', '' @ join_comma (y # ys)"

definition json_dumps :: "string list \<Rightarrow> string" where
  "json_dumps xs = ''['' @ join_comma (map json_string xs) @ '']''"

text \<open>
  \<^verbatim>\<open>add_note\<close>: \<^verbatim>\<open>tags\<close> is \<^verbatim>\<open>None\<close> or a list; \<^verbatim>\<open>if tags\<close> holds for a non-empty list only.
\<close>

definition add_note ::
  "os_env \<Rightarrow> nat \<Rightarrow> nat \<Rightarrow> db \<Rightarrow> string \<Rightarrow> string list option \<Rightarrow> nat \<times> db" where
  "add_note env t_res t_ins d content tags =
     (let (session_id, d1) = get_current_session env t_res d;
          tags_json = (case tags of
                         Some (t # ts) \<Rightarrow> Some (json_dumps (t # ts))
                       | _ \<Rightarrow> None);
          rowid = next_id (map n_id (notes' d1))
      in (rowid,
          d1\<lparr>notes' := notes' d1 @
             [\<lparr>n_id = rowid, n_session_id = session_id, n_content = content,
               n_tags = tags_json, created_at = t_ins\<rparr>]\<rparr>))"

text \<open>\<^verbatim>\<open>log_error\<close>: \<^verbatim>\<open>if file_path\<close> holds for a non-empty string only.\<close>

definition log_error ::
  "os_env \<Rightarrow> nat \<Rightarrow> nat \<Rightarrow> db \<Rightarrow> string \<Rightarrow> string \<Rightarrow> string option \<Rightarrow> string option
     \<Rightarrow> nat \<times> db" where
  "log_error env t_res t_ins d etype message file_path context =
     (let (session_id, d1) = get_current_session env t_res d;
          file_path' = (case file_path of
                          Some (c # cs) \<Rightarrow> Some (abspath env (c # cs))
                        | _ \<Rightarrow> None);
          rowid = next_id (map e_id (errors d1))
      in (rowid,
          d1\<lparr>errors := errors d1 @
             [\<lparr>e_id = rowid, e_session_id = session_id, error_type = etype,
               error_message = message, e_file_path = file_path', e_context = context,
               occurred_at = t_ins\<rparr>]\<rparr>))"

section \<open>Queries\<close>

text \<open>
  One constructor for the dictionaries of each branch of \<^verbatim>\<open>query_session\<close>, its arguments
  in the order of the SELECT list; \<open>CountRow\<close> is a row of the summary (\<^verbatim>\<open>type\<close>,
  \<^verbatim>\<open>count\<close>).
\<close>

datatype query_row =
    ReadRow string nat "string option"
  | ChangeRow string string "string option" nat
  | TestRow string string "string option" nat
  | NoteRow string "string option" nat
  | ErrorRow string string "string option" "string option" nat
  | CountRow string nat

definition query_session ::
  "os_env \<Rightarrow> nat \<Rightarrow> db \<Rightarrow> string option \<Rightarrow> int \<Rightarrow> query_row list \<times> db" where
  "query_session env t_res d query_type limit =
     (let (session_id, d1) = get_current_session env t_res d;
          results =
            (if query_type = Some ''reads'' then
               map (\<lambda>r. ReadRow (fr_file_path r) (read_at r) (fr_context r))
                 (sql_limit limit (order_by_desc read_at
                    (filter (\<lambda>r. fr_session_id r = session_id) (file_reads d1))))
             else if query_type = Some ''changes'' then
               map (\<lambda>r. ChangeRow (ch_file_path r) (change_type r) (ch_description r)
                          (changed_at r))
                 (sql_limit limit (order_by_desc changed_at
                    (filter (\<lambda>r. ch_session_id r = session_id) (changes d1))))
             else if query_type = Some ''tests'' then
               map (\<lambda>r. TestRow (t_command r) (t_result r) (t_output r) (run_at r))
                 (sql_limit limit (order_by_desc run_at
                    (filter (\<lambda>r. t_session_id r = session_id) (tests d1))))
             else if query_type = Some ''notes'' then
               map (\<lambda>r. NoteRow (n_content r) (n_tags r) (created_at r))
                 (sql_limit limit (order_by_desc created_at
                    (filter (\<lambda>r. n_session_id r = session_id) (notes' d1))))
             else if query_type = Some ''errors'' then
               map (\<lambda>r. ErrorRow (error_type r) (error_message r) (e_file_path r)
                          (e_context r) (occurred_at r))
                 (sql_limit limit (order_by_desc occurred_at
                    (filter (\<lambda>r. e_session_id r = session_id) (errors d1))))
             else
               [CountRow ''reads''
                  (length (filter (\<lambda>r. fr_session_id r = session_id) (file_reads d1))),
                CountRow ''changes''
                  (length (filter (\<lambda>r. ch_session_id r = session_id) (changes d1))),
                CountRow ''tests''
                  (length (filter (\<lambda>r. t_session_id r = session_id) (tests d1))),
                CountRow ''notes''
                  (length (filter (\<lambda>r. n_session_id r = session_id) (notes' d1))),
                CountRow ''errors''
                  (length (filter (\<lambda>r. e_session_id r = session_id) (errors d1)))])
      in (results, d1))"

section \<open>Analytics\<close>

text \<open>
  \<^verbatim>\<open>GROUP BY key\<close> with \<^verbatim>\<open>COUNT(*)\<close>: one row for each key that occurs, with the number of
  its occurrences; the groups come in key order (binary collation, the order of
  \<open>string\<close> here).
\<close>

definition group_count :: "'a::linorder list \<Rightarrow> ('a \<times> nat) list" where
  "group_count xs = map (\<lambda>k. (k, count_list xs k)) (sort (remdups xs))"

text \<open>
  \<^verbatim>\<open>file_path LIKE '%.ext'\<close>: the path ends with the pattern's literal text; SQLite's LIKE
  ignores the case of ASCII letters.
\<close>

definition sql_like_suffix :: "string \<Rightarrow> string \<Rightarrow> bool" where
  "sql_like_suffix s suf = starts_with (rev suf) (rev (lower s))"

definition file_type :: "string \<Rightarrow> string" where
  "file_type file_path =
     (if sql_like_suffix file_path ''.py'' then ''Python''
      else if sql_like_suffix file_path ''.js'' then ''JavaScript''
      else if sql_like_suffix file_path ''.ts'' then ''TypeScript''
      else if sql_like_suffix file_path ''.jsx'' then ''React''
      else if sql_like_suffix file_path ''.tsx'' then ''React TS''
      else if sql_like_suffix file_path ''.css'' then ''CSS''
      else if sql_like_suffix file_path ''.md'' then ''Markdown''
      else if sql_like_suffix file_path ''.json'' then ''JSON''
      else ''Other'')"

text \<open>
  Python's floats are IEEE doubles. A finite double is a rational number, and an operation
  returns the exact result rounded to 53 significant bits, ties to the even significand.
  The exponent is left unbounded: the values below lie between \<open>2 ^ -63\<close> and 100, far
  from overflow and from the subnormal range. \<^verbatim>\<open>a / b\<close> on two ints is the correctly
  rounded quotient; \<^verbatim>\<open>x * 100\<close> is the correctly rounded product.
\<close>

definition pow2 :: "int \<Rightarrow> rat" where
  "pow2 e = (if 0 \<le> e then 2 ^ nat e else 1 / 2 ^ nat (- e))"

definition round_half_even :: "rat \<Rightarrow> int" where
  "round_half_even x =
     (let f = \<lfloor>x\<rfloor>; r = x - of_int f
      in if r < 1 / 2 then f else if 1 / 2 < r then f + 1
         else if even f then f else f + 1)"

text \<open>The exponent \<open>e\<close> with \<open>2 ^ e \<le> x < 2 ^ (e + 1)\<close>, for a positive \<open>x\<close>.\<close>

definition binade :: "rat \<Rightarrow> int" where
  "binade x =
     (let (a, b) = quotient_of x; n = bitlen a - bitlen b
      in if pow2 n \<le> x then n else n - 1)"

definition round_double :: "rat \<Rightarrow> rat" where
  "round_double x =
     (if x = 0 then 0
      else (let u = pow2 (binade \<bar>x\<bar> - 52)
            in sgn x * of_int (round_half_even (\<bar>x\<bar> / u)) * u))"

definition py_true_div :: "nat \<Rightarrow> nat \<Rightarrow> rat" where
  "py_true_div a b = round_double (of_nat a / of_nat b)"

definition py_float_mul :: "rat \<Rightarrow> rat \<Rightarrow> rat" where
  "py_float_mul x y = round_double (x * y)"

text \<open>
  \<^verbatim>\<open>int(seconds / 60)\<close> truncates towards zero; \<^verbatim>\<open>f"{rate:.1f}"\<close> in \<^verbatim>\<open>main\<close> prints the
  decimal with one digit after the point that is nearest to the double (ties to even).
\<close>

definition trunc_minutes :: "int \<Rightarrow> int" where
  "trunc_minutes secs = (if 0 \<le> secs then secs div 60 else - ((- secs) div 60))"

definition format_1f :: "rat \<Rightarrow> rat" where
  "format_1f x = of_int (round_half_even (x * 10)) / 10"

text \<open>
  The dictionary \<^verbatim>\<open>analytics\<close>: a key that may be missing is an option;
  \<^verbatim>\<open>file_types\<close> keeps the order of the rows.
\<close>

record analytics =
  duration_minutes :: "int option"
  files_read :: nat
  changes_made :: nat
  tests_run :: nat
  notes_added :: nat
  errors_logged :: nat
  test_success_rate :: "rat option"
  file_types :: "(string \<times> nat) list"

definition get_session_analytics :: "os_env \<Rightarrow> nat \<Rightarrow> db \<Rightarrow> analytics \<times> db" where
  "get_session_analytics env t_res d =
     (let (session_id, d1) = get_current_session env t_res d;
          session_reads = filter (\<lambda>r. fr_session_id r = session_id) (file_reads d1);
          session_changes = filter (\<lambda>r. ch_session_id r = session_id) (changes d1);
          session_tests = filter (\<lambda>r. t_session_id r = session_id) (tests d1);
          test_results = group_count (map t_result session_tests);
          total_tests = sum_list (map snd test_results)
      in (\<lparr>duration_minutes =
             (case find (\<lambda>r. s_id r = session_id) (sessions d1) of
                Some r \<Rightarrow> Some (trunc_minutes (int (last_active r) - int (started_at r)))
              | None \<Rightarrow> None),
           files_read = length session_reads,
           changes_made = length session_changes,
           tests_run = length session_tests,
           notes_added = length (filter (\<lambda>r. n_session_id r = session_id) (notes' d1)),
           errors_logged = length (filter (\<lambda>r. e_session_id r = session_id) (errors d1)),
           test_success_rate =
             (if total_tests > 0
              then Some (py_float_mul
                     (py_true_div (case map_of test_results ''pass'' of
                                     Some n \<Rightarrow> n | None \<Rightarrow> 0) total_tests) 100)
              else None),
           file_types =
             sql_limit 5 (order_by_desc snd
               (group_count (map file_type
                  (map fr_file_path session_reads @ map ch_file_path session_changes))))\<rparr>,
          d1))"

section \<open>Runs of the program\<close>

text \<open>
  A call of one of the methods of \<^verbatim>\<open>SessionMemory\<close>, with its arguments.
  \<^verbatim>\<open>export_session\<close> changes the store as one \<open>GetCurrentSession\<close> and five
  \<open>QuerySession\<close> calls do.
\<close>

datatype method_call =
    GetCurrentSession
  | LogRead string "string option"
  | LogChange string string "string option"
  | LogTest string string "string option"
  | AddNote string "string list option"
  | LogError string string "string option" "string option"
  | QuerySession "string option" int
  | GetSessionAnalytics

fun exec_call :: "os_env \<Rightarrow> nat \<Rightarrow> nat \<Rightarrow> method_call \<Rightarrow> db \<Rightarrow> db" where
  "exec_call env t_res t_ins GetCurrentSession d = snd (get_current_session env t_res d)"
| "exec_call env t_res t_ins (LogRead p c) d = snd (log_read env t_res t_ins d p c)"
| "exec_call env t_res t_ins (LogChange p k c) d = snd (log_change env t_res t_ins d p k c)"
| "exec_call env t_res t_ins (LogTest c r out) d = snd (log_test env t_res t_ins d c r out)"
| "exec_call env t_res t_ins (AddNote c ts) d = snd (add_note env t_res t_ins d c ts)"
| "exec_call env t_res t_ins (LogError k m p c) d =
     snd (log_error env t_res t_ins d k m p c)"
| "exec_call env t_res t_ins (QuerySession k n) d = snd (query_session env t_res d k n)"
| "exec_call env t_res t_ins GetSessionAnalytics d = snd (get_session_analytics env t_res d)"

text \<open>
  The store after a sequence of calls on a fresh database, each call with the environment
  and the two clock readings it runs under.
\<close>

definition run :: "(os_env \<times> nat \<times> nat \<times> method_call) list \<Rightarrow> db" where
  "run calls =
     foldl (\<lambda>d (env, t_res, t_ins, c). exec_call env t_res t_ins c d) init_database calls"

section \<open>An environment for the examples\<close>

text \<open>
  The working directory is \<^verbatim>\<open>/repo\<close>. It holds \<^verbatim>\<open>main.py\<close> and \<^verbatim>\<open>copy.py\<close>, both with the
  bytes \<^verbatim>\<open>x=1\<close>, and \<^verbatim>\<open>user_api_test.py\<close> with the line \<^verbatim>\<open>def test_login():\<close>; no other
  file can be opened. The digest function is a stand-in with the length of an MD5 hex
  digest, not MD5 itself.
\<close>

definition example_env :: os_env where
  "example_env =
     \<lparr>getcwd = ''/repo'',
      abspath = (\<lambda>p. if starts_with ''/'' p then p else ''/repo/'' @ p),
      read_bytes = (\<lambda>p. if p = ''/repo/main.py'' \<or> p = ''/repo/copy.py'' then Some ''x=1''
                         else if p = ''/repo/user_api_test.py''
                         then Some ''def test_login():'' else None),
      read_lines = (\<lambda>p. if p = ''/repo/main.py'' \<or> p = ''/repo/copy.py'' then Some [''x=1'']
                         else if p = ''/repo/user_api_test.py''
                         then Some [''def test_login():''] else None),
      is_dir = (\<lambda>p. p = ''/repo''),
      md5_hexdigest = (\<lambda>b. take 32 (b @ replicate 32 (CHR ''0'')))\<rparr>"

text \<open>
  What every store of a run satisfies: no two sessions have the same project path, and
  every session is active. (No statement of the program writes another status, and a
  session is inserted only when the path has no active one.)
\<close>

definition sessions_inv :: "db \<Rightarrow> bool" where
  "sessions_inv d \<longleftrightarrow>
     distinct (map project_path (sessions d)) \<and>
     list_all (\<lambda>r. status r = Some ''active'') (sessions d)"



section \<open>Session resolution leaves the event tables alone\<close>

lemma gcs_tables:
  "file_reads (snd (get_current_session env t d)) = file_reads d"
  "changes (snd (get_current_session env t d)) = changes d"
  "tests (snd (get_current_session env t d)) = tests d"
  "notes' (snd (get_current_session env t d)) = notes' d"
  "errors (snd (get_current_session env t d)) = errors d"
  by (simp_all add: get_current_session_def Let_def split: option.split)

lemma gcs_id_time:
  "fst (get_current_session env t d) = fst (get_current_session env t' d)"
  by (simp add: get_current_session_def Let_def split: option.split)

section \<open>Selecting the latest row\<close>

lemma select_first_None:
  "fetchone (sql_limit 1 (order_by_desc k xs)) = None \<longleftrightarrow> xs = []"
proof (cases "sort_key (\<lambda>r. - int (k r)) xs")
  case Nil
  then have "xs = []" by (metis length_sort list.size(3) length_0_conv)
  then show ?thesis by (simp add: fetchone_def sql_limit_def order_by_desc_def)
next
  case (Cons y ys)
  then have "xs \<noteq> []" by auto
  with Cons show ?thesis by (simp add: fetchone_def sql_limit_def order_by_desc_def)
qed

lemma select_first_Some:
  assumes "fetchone (sql_limit 1 (order_by_desc k xs)) = Some r"
  shows "r \<in> set xs \<and> (\<forall>r'\<in>set xs. k r' \<le> k r)"
proof -
  let ?f = "\<lambda>r. - int (k r)"
  from assms obtain ys where s: "sort_key ?f xs = r # ys"
    by (cases "sort_key ?f xs") (simp_all add: fetchone_def sql_limit_def order_by_desc_def)
  have "set (sort_key ?f xs) = set xs" by simp
  with s have mem: "set xs = insert r (set ys)" by simp
  have "sorted (map ?f (sort_key ?f xs))" by (rule sorted_sort_key)
  with s have "\<forall>z\<in>set ys. ?f r \<le> ?f z" by simp
  with mem show ?thesis by auto
qed


section \<open>One session for each project path\<close>

lemma select_first_single:
  "fetchone (sql_limit 1 (order_by_desc k [x])) = Some x"
  by (simp add: fetchone_def sql_limit_def order_by_desc_def)

lemma touch_active_sessions:
  "active_sessions (map (\<lambda>r'. if s_id r' = i then r'\<lparr>last_active := t\<rparr> else r') xs) p =
   map (\<lambda>r'. if s_id r' = i then r'\<lparr>last_active := t\<rparr> else r') (active_sessions xs p)"
  by (induction xs) (auto simp: active_sessions_def)

lemma touch_paths:
  "project_path \<circ> (\<lambda>r'. if s_id r' = i then r'\<lparr>last_active := t\<rparr> else r') = project_path"
  by (auto simp: fun_eq_iff)

lemma touch_status:
  "list_all (\<lambda>r. status r = Some ''active'')
     (map (\<lambda>r'. if s_id r' = i then r'\<lparr>last_active := t\<rparr> else r') xs) =
   list_all (\<lambda>r. status r = Some ''active'') xs"
  by (induction xs) auto

lemma distinct_paths_single:
  "distinct (map project_path xs) \<Longrightarrow> r \<in> set (active_sessions xs p)
     \<Longrightarrow> active_sessions xs p = [r]"
proof (induction xs)
  case Nil
  then show ?case by (simp add: active_sessions_def)
next
  case (Cons x xs)
  show ?case
  proof (cases "project_path x = p")
    case True
    from Cons.prems(1) True have "p \<notin> project_path ` set xs" by auto
    then have "\<forall>y\<in>set xs. project_path y \<noteq> p" by blast
    then have "active_sessions xs p = []"
      by (auto simp: active_sessions_def filter_empty_conv)
    with Cons.prems(2) True show ?thesis by (auto simp: active_sessions_def split: if_splits)
  next
    case False
    with Cons show ?thesis by (auto simp: active_sessions_def)
  qed
qed

lemma next_id_fresh: "i \<in> set ids \<Longrightarrow> i < next_id ids"
  by (induction ids) (auto simp: next_id_def)

lemma gcs_inv: "sessions_inv d \<Longrightarrow> sessions_inv (snd (get_current_session env t d))"
proof (cases "select_active_session (sessions d) (getcwd env)")
  case None
  assume inv: "sessions_inv d"
  from None have "active_sessions (sessions d) (getcwd env) = []"
    by (simp add: select_active_session_def select_first_None)
  then have "\<forall>r\<in>set (sessions d). \<not> (project_path r = getcwd env \<and> status r = Some ''active'')"
    by (simp add: active_sessions_def filter_empty_conv)
  with inv have "getcwd env \<notin> project_path ` set (sessions d)"
    by (auto simp: sessions_inv_def list_all_iff)
  with inv None show ?thesis
    by (simp add: get_current_session_def Let_def sessions_inv_def)
next
  case (Some r)
  assume "sessions_inv d"
  with Some show ?thesis
    by (simp add: get_current_session_def Let_def sessions_inv_def touch_paths touch_status)
qed

lemma op_sessions:
  "sessions (snd (log_read env t1 t2 d p c)) = sessions (snd (get_current_session env t1 d))"
  "sessions (snd (log_change env t1 t2 d p k c)) = sessions (snd (get_current_session env t1 d))"
  "sessions (snd (log_test env t1 t2 d cm r out)) = sessions (snd (get_current_session env t1 d))"
  "sessions (snd (add_note env t1 t2 d cn ts)) = sessions (snd (get_current_session env t1 d))"
  "sessions (snd (log_error env t1 t2 d k m fp cx)) = sessions (snd (get_current_session env t1 d))"
  "sessions (snd (query_session env t1 d qt n)) = sessions (snd (get_current_session env t1 d))"
  "sessions (snd (get_session_analytics env t1 d)) = sessions (snd (get_current_session env t1 d))"
  by (simp_all add: log_read_def log_change_def log_test_def add_note_def log_error_def
      query_session_def get_session_analytics_def Let_def split_beta)

lemma exec_call_inv: "sessions_inv d \<Longrightarrow> sessions_inv (exec_call env t1 t2 c d)"
proof -
  assume inv: "sessions_inv d"
  have "sessions (exec_call env t1 t2 c d) = sessions (snd (get_current_session env t1 d))"
    by (cases c) (simp_all add: op_sessions)
  with gcs_inv [OF inv, of env t1] show ?thesis by (simp add: sessions_inv_def)
qed

lemma run_inv: "sessions_inv (run calls)"
proof (induction calls rule: rev_induct)
  case Nil
  show ?case by (simp add: run_def sessions_inv_def init_database_def)
next
  case (snoc c calls)
  obtain env t1 t2 m where c: "c = (env, t1, t2, m)" by (cases c) auto
  from snoc show ?case by (simp add: run_def c exec_call_inv)
qed

lemma gcs_twice:
  assumes inv: "sessions_inv d" and cwd: "getcwd env' = getcwd env"
  shows "fst (get_current_session env' t' (snd (get_current_session env t d))) =
         fst (get_current_session env t d)"
proof (cases "select_active_session (sessions d) (getcwd env)")
  case None
  then have e: "active_sessions (sessions d) (getcwd env) = []"
    by (simp add: select_active_session_def select_first_None)
  let ?new = "\<lparr>s_id = next_id (map s_id (sessions d)), project_path = getcwd env,
                 started_at = t, last_active = t,
                 s_description = Some (''Session for '' @ basename (getcwd env)),
                 status = Some ''active''\<rparr>"
  have "active_sessions (sessions d @ [?new]) (getcwd env) = [?new]"
    using e by (simp add: active_sessions_def)
  then have "select_active_session (sessions d @ [?new]) (getcwd env) = Some ?new"
    by (simp add: select_active_session_def select_first_single)
  with None show ?thesis
    by (simp add: get_current_session_def Let_def cwd)
next
  case (Some r)
  then have "r \<in> set (active_sessions (sessions d) (getcwd env))"
    unfolding select_active_session_def by (blast dest: select_first_Some)
  with inv have one: "active_sessions (sessions d) (getcwd env) = [r]"
    by (simp add: sessions_inv_def distinct_paths_single)
  let ?upd = "\<lambda>r'. if s_id r' = s_id r then r'\<lparr>last_active := t\<rparr> else r'"
  have "select_active_session (map ?upd (sessions d)) (getcwd env) = Some (?upd r)"
    by (simp only: select_active_session_def touch_active_sessions one list.map
        select_first_single)
  with Some show ?thesis
    by (simp add: get_current_session_def Let_def cwd)
qed

section \<open>Grouping, ordering and truncating\<close>










lemma sql_limit_take: "0 \<le> n \<Longrightarrow> sql_limit n xs = take (nat n) xs"
  by (simp add: sql_limit_def)






section \<open>Suffix tests\<close>




section \<open>Properties of the content hasher\<close>

text \<open>
  C3. \<^verbatim>\<open>file_hash\<close> never raises (it is a total function into an option). When the file
  can be read the digest is the MD5 hex digest of its bytes and of nothing else, so two
  paths holding the same bytes get the same digest; when the file cannot be opened or read
  the result is null. The digest has a fixed length as soon as the library's
  \<^verbatim>\<open>hexdigest\<close> has one (32 characters for MD5).
\<close>

theorem file_hash_content_only:
  "(read_bytes env p = None \<longrightarrow> file_hash env p = None) \<and>
   (\<forall>b. read_bytes env p = Some b \<longrightarrow> file_hash env p = Some (md5_hexdigest env b)) \<and>
   (\<forall>q b. read_bytes env p = Some b \<and> read_bytes env q = Some b
      \<longrightarrow> file_hash env p = file_hash env q \<and> file_hash env p \<noteq> None) \<and>
   ((\<forall>b. length (md5_hexdigest env b) = 32)
      \<longrightarrow> (\<forall>h. file_hash env p = Some h \<longrightarrow> length h = 32))"
  by (auto simp: file_hash_def split: option.splits)

theorem file_hash_content_only_witness:
  "file_hash example_env ''/repo/missing.py'' = None \<and>
   file_hash example_env ''/repo/main.py'' = file_hash example_env ''/repo/copy.py'' \<and>
   (\<exists>h. file_hash example_env ''/repo/main.py'' = Some h \<and> length h = 32)"
proof -
  have len: "\<forall>b. length (md5_hexdigest example_env b) = 32"
    by (simp add: example_env_def min_def)
  have rd: "read_bytes example_env ''/repo/main.py'' = Some ''x=1''"
    "read_bytes example_env ''/repo/copy.py'' = Some ''x=1''"
    "read_bytes example_env ''/repo/missing.py'' = None"
    by (simp_all add: example_env_def)
  from file_hash_content_only [of example_env "''/repo/missing.py''"] rd
  have a: "file_hash example_env ''/repo/missing.py'' = None" by blast
  from file_hash_content_only [of example_env "''/repo/main.py''"] rd len
  have b: "file_hash example_env ''/repo/main.py'' = file_hash example_env ''/repo/copy.py''"
    and c: "\<exists>h. file_hash example_env ''/repo/main.py'' = Some h \<and> length h = 32"
    by blast+
  from a b c show ?thesis by blast
qed

section \<open>Properties of notes\<close>

text \<open>
  C10. A note added with an explicitly empty tag list gets a row whose tags field is null:
  the call stores, and returns, exactly what the call with absent tags does, so the two
  cannot be told apart on read-back.
\<close>

theorem add_note_empty_tags_null:
  "notes' (snd (add_note env t_res t_ins d content (Some []))) =
     notes' d @
       [\<lparr>n_id = next_id (map n_id (notes' d)),
         n_session_id = fst (get_current_session env t_res d),
         n_content = content, n_tags = None, created_at = t_ins\<rparr>] \<and>
   add_note env t_res t_ins d content (Some []) = add_note env t_res t_ins d content None"
  by (simp add: add_note_def Let_def split_beta gcs_tables)

section \<open>Properties of the summary query and of analytics\<close>

text \<open>
  C6. On one store, the five rows of the summary query (the branch of \<^verbatim>\<open>query_session\<close>
  with the kind omitted, whatever the limit) carry, kind by kind and in the order reads,
  changes, tests, notes, errors, the counts \<^verbatim>\<open>files_read\<close>, \<^verbatim>\<open>changes_made\<close>,
  \<^verbatim>\<open>tests_run\<close>, \<^verbatim>\<open>notes_added\<close> and \<^verbatim>\<open>errors_logged\<close> of analytics, at whatever clock
  readings the two are called.
\<close>

theorem summary_counts_match_analytics:
  "fst (query_session env t d None limit) =
     (let a = fst (get_session_analytics env t' d)
      in [CountRow ''reads'' (files_read a), CountRow ''changes'' (changes_made a),
          CountRow ''tests'' (tests_run a), CountRow ''notes'' (notes_added a),
          CountRow ''errors'' (errors_logged a)])"
  by (simp add: query_session_def get_session_analytics_def Let_def split_beta gcs_tables
      gcs_id_time [of env t d t'])

section \<open>Properties of change logging\<close>




section \<open>Properties of session resolution\<close>

text \<open>
  C2. When the store holds an active session for the working directory,
  \<^verbatim>\<open>get_current_session\<close> returns the id of one whose \<^verbatim>\<open>last_active\<close> no other active
  session of that path exceeds, and sets \<^verbatim>\<open>last_active\<close> of the session with that id to the
  clock reading. When it holds none, it appends a session with a fresh id, that path and
  status active, and returns the new id. On every store that a sequence of calls produces
  from a fresh database, resolving the same path twice in sequence returns the same id.
\<close>

theorem get_current_session_resolves:
  "((\<exists>r\<in>set (sessions d). project_path r = getcwd env \<and> status r = Some ''active'') \<longrightarrow>
      (\<exists>r\<in>set (sessions d). project_path r = getcwd env \<and> status r = Some ''active'' \<and>
         (\<forall>r'\<in>set (sessions d). project_path r' = getcwd env \<and> status r' = Some ''active''
            \<longrightarrow> last_active r' \<le> last_active r) \<and>
         fst (get_current_session env t d) = s_id r \<and>
         sessions (snd (get_current_session env t d)) =
           map (\<lambda>r'. if s_id r' = s_id r then r'\<lparr>last_active := t\<rparr> else r') (sessions d))) \<and>
   (\<not> (\<exists>r\<in>set (sessions d). project_path r = getcwd env \<and> status r = Some ''active'') \<longrightarrow>
      (\<exists>row. sessions (snd (get_current_session env t d)) = sessions d @ [row] \<and>
         s_id row = fst (get_current_session env t d) \<and>
         s_id row \<notin> s_id ` set (sessions d) \<and>
         project_path row = getcwd env \<and> status row = Some ''active'' \<and>
         started_at row = t \<and> last_active row = t)) \<and>
   (getcwd env' = getcwd env \<longrightarrow>
      fst (get_current_session env' t' (snd (get_current_session env t (run calls)))) =
      fst (get_current_session env t (run calls)))"
proof (intro conjI impI)
  assume "\<exists>r\<in>set (sessions d). project_path r = getcwd env \<and> status r = Some ''active''"
  then have "active_sessions (sessions d) (getcwd env) \<noteq> []"
    by (auto simp: active_sessions_def filter_empty_conv)
  then obtain r where sel: "select_active_session (sessions d) (getcwd env) = Some r"
    by (cases "select_active_session (sessions d) (getcwd env)")
      (simp_all add: select_active_session_def select_first_None)
  then have "r \<in> set (active_sessions (sessions d) (getcwd env)) \<and>
      (\<forall>r'\<in>set (active_sessions (sessions d) (getcwd env)). last_active r' \<le> last_active r)"
    unfolding select_active_session_def by (rule select_first_Some)
  then have "r \<in> set (sessions d)" "project_path r = getcwd env" "status r = Some ''active''"
    "\<forall>r'\<in>set (sessions d). project_path r' = getcwd env \<and> status r' = Some ''active''
        \<longrightarrow> last_active r' \<le> last_active r"
    by (auto simp: active_sessions_def)
  moreover from sel have "fst (get_current_session env t d) = s_id r"
    "sessions (snd (get_current_session env t d)) =
       map (\<lambda>r'. if s_id r' = s_id r then r'\<lparr>last_active := t\<rparr> else r') (sessions d)"
    by (simp_all add: get_current_session_def Let_def)
  ultimately show "\<exists>r\<in>set (sessions d). project_path r = getcwd env \<and> status r = Some ''active'' \<and>
         (\<forall>r'\<in>set (sessions d). project_path r' = getcwd env \<and> status r' = Some ''active''
            \<longrightarrow> last_active r' \<le> last_active r) \<and>
         fst (get_current_session env t d) = s_id r \<and>
         sessions (snd (get_current_session env t d)) =
           map (\<lambda>r'. if s_id r' = s_id r then r'\<lparr>last_active := t\<rparr> else r') (sessions d)"
    by blast
next
  assume "\<not> (\<exists>r\<in>set (sessions d). project_path r = getcwd env \<and> status r = Some ''active'')"
  then have "active_sessions (sessions d) (getcwd env) = []"
    by (auto simp: active_sessions_def filter_empty_conv)
  then have sel: "select_active_session (sessions d) (getcwd env) = None"
    by (simp add: select_active_session_def select_first_None)
  have "next_id (map s_id (sessions d)) \<notin> s_id ` set (sessions d)"
    using next_id_fresh [of "next_id (map s_id (sessions d))" "map s_id (sessions d)"] by auto
  with sel show "\<exists>row. sessions (snd (get_current_session env t d)) = sessions d @ [row] \<and>
         s_id row = fst (get_current_session env t d) \<and>
         s_id row \<notin> s_id ` set (sessions d) \<and>
         project_path row = getcwd env \<and> status row = Some ''active'' \<and>
         started_at row = t \<and> last_active row = t"
    by (simp add: get_current_session_def Let_def)
next
  assume "getcwd env' = getcwd env"
  with run_inv [of calls]
  show "fst (get_current_session env' t' (snd (get_current_session env t (run calls)))) =
      fst (get_current_session env t (run calls))"
    by (rule gcs_twice)
qed


theorem get_current_session_resolves_witness:
  "fst (get_current_session example_env 10 init_database) = 1 \<and>
   fst (get_current_session example_env 20
          (snd (get_current_session example_env 10 init_database))) = 1 \<and>
   map last_active (sessions (snd (get_current_session example_env 20
          (snd (get_current_session example_env 10 init_database))))) = [20]"
proof -
  define d1 where "d1 = snd (get_current_session example_env 10 init_database)"
  have cw: "getcwd example_env = ''/repo''"
    by (simp add: example_env_def)
  have run0: "run [] = init_database"
    by (simp add: run_def)
  have s0: "get_current_session example_env 10 init_database =
      (1, init_database\<lparr>sessions :=
         [\<lparr>s_id = 1, project_path = ''/repo'', started_at = 10, last_active = 10,
           s_description = Some (''Session for '' @ basename ''/repo''),
           status = Some ''active''\<rparr>]\<rparr>)"
    by (simp add: get_current_session_def Let_def select_active_session_def
        active_sessions_def order_by_desc_def sql_limit_def fetchone_def init_database_def
        next_id_def cw)
  have ss: "sessions d1 =
         [\<lparr>s_id = 1, project_path = ''/repo'', started_at = 10, last_active = 10,
           s_description = Some (''Session for '' @ basename ''/repo''),
           status = Some ''active''\<rparr>]"
    by (simp add: d1_def s0)
  have a: "fst (get_current_session example_env 10 init_database) = 1"
    by (simp add: s0)
  from get_current_session_resolves [of init_database example_env 10 example_env 20 "[]",
      THEN conjunct2, THEN conjunct2]
  have b: "fst (get_current_session example_env 20 d1) = 1"
    by (simp add: run0 a d1_def)
  from get_current_session_resolves [of d1 example_env 20 example_env 20 "[]", THEN conjunct1]
  have c: "map last_active (sessions (snd (get_current_session example_env 20 d1))) = [20]"
    by (auto simp: ss cw)
  from a b c show ?thesis by (simp only: d1_def)
qed

section \<open>Properties of the file type histogram\<close>




end
